theory Spec2Isabelle
  imports Main "HOL-Library.Sublist"
begin

section \<open>Text\<close>

text \<open>
  A Python \<open>str\<close> is a sequence of code points. The statements handled by
  \<open>connection.py\<close> are modelled as \<^typ>\<open>string\<close>, one \<^typ>\<open>char\<close> per code
  point, which covers the code points U+0000 to U+00FF.

  \<open>str.upper()\<close> is Python's full case mapping. On this range it maps \<open>a\<close>..\<open>z\<close> and the
  lower-case letters U+00E0..U+00FE (without the division sign U+00F7) to the letter 32 code
  points below, it maps the sharp s U+00DF to the two characters \<open>SS\<close>, and it leaves every
  other character alone, with two exceptions whose upper-case forms lie above U+00FF and
  cannot be written in this type: U+00B5 (to U+039C) and U+00FF (to U+0178). Both forms are
  single characters that are no ASCII letter; \<open>upper_char\<close> keeps these two characters as
  they are, which changes neither a length nor an occurrence of an ASCII keyword.
\<close>

definition dquote :: char where
  "dquote = CHR 0x22"

definition backslash :: char where
  "backslash = CHR 0x5C"

definition newline :: char where
  "newline = CHR 0x0A"

definition lowercase :: string where
  "lowercase = ''abcdefghijklmnopqrstuvwxyz'' @
     [CHR 0xE0, CHR 0xE1, CHR 0xE2, CHR 0xE3, CHR 0xE4, CHR 0xE5, CHR 0xE6, CHR 0xE7,
      CHR 0xE8, CHR 0xE9, CHR 0xEA, CHR 0xEB, CHR 0xEC, CHR 0xED, CHR 0xEE, CHR 0xEF,
      CHR 0xF0, CHR 0xF1, CHR 0xF2, CHR 0xF3, CHR 0xF4, CHR 0xF5, CHR 0xF6,
      CHR 0xF8, CHR 0xF9, CHR 0xFA, CHR 0xFB, CHR 0xFC, CHR 0xFD, CHR 0xFE]"

definition uppercase :: string where
  "uppercase = ''ABCDEFGHIJKLMNOPQRSTUVWXYZ'' @
     [CHR 0xC0, CHR 0xC1, CHR 0xC2, CHR 0xC3, CHR 0xC4, CHR 0xC5, CHR 0xC6, CHR 0xC7,
      CHR 0xC8, CHR 0xC9, CHR 0xCA, CHR 0xCB, CHR 0xCC, CHR 0xCD, CHR 0xCE, CHR 0xCF,
      CHR 0xD0, CHR 0xD1, CHR 0xD2, CHR 0xD3, CHR 0xD4, CHR 0xD5, CHR 0xD6,
      CHR 0xD8, CHR 0xD9, CHR 0xDA, CHR 0xDB, CHR 0xDC, CHR 0xDD, CHR 0xDE]"

definition upper_char :: "char \<Rightarrow> string" where
  "upper_char c =
     (if c = CHR 0xDF then ''SS''
      else case map_of (zip lowercase uppercase) c of Some u \<Rightarrow> [u] | None \<Rightarrow> [c])"

text \<open>\<open>query.upper()\<close>\<close>

definition upper :: "string \<Rightarrow> string" where
  "upper s = concat (map upper_char s)"

text \<open>
  \<open>s.rfind(sub, start)\<close> for a non-empty \<open>sub\<close>: the highest index \<open>k \<ge> start\<close> at which
  \<open>sub\<close> occurs in \<open>s\<close>, and \<open>-1\<close> when there is none. The scan runs over \<open>s\<close> from the
  left, \<open>k\<close> counting the position, and keeps the last hit.
\<close>

fun rfind_scan :: "string \<Rightarrow> string \<Rightarrow> nat \<Rightarrow> nat \<Rightarrow> int \<Rightarrow> int" where
  "rfind_scan [] sub start k best = best"
| "rfind_scan (c # cs) sub start k best =
     rfind_scan cs sub start (Suc k)
       (if start \<le> k \<and> prefix sub (c # cs) then int k else best)"

definition rfind :: "string \<Rightarrow> string \<Rightarrow> nat \<Rightarrow> int" where
  "rfind s sub start = rfind_scan s sub start 0 (- 1)"

section \<open>The statement shape\<close>

text \<open>
  \<^verbatim>\<open>name_regex = r'"(?:[^"]|\\.)+"'\<close> and
  \<^verbatim>\<open>update_pattern = re.compile(f"^ALTER TABLE ({name_regex}) UPDATE ")\<close>.

  \<open>name_items ok s\<close> is the backtracking search of the regular expression engine once the
  opening quote has been read: \<open>ok\<close> says whether one item of the repeated group has been
  consumed already (the group is repeated with \<open>+\<close>). At a character other than the quote
  the greedy repetition first takes it with the alternative \<^verbatim>\<open>[^"]\<close> and goes on; when
  nothing matches from there and the character is a backslash, the alternative \<^verbatim>\<open>\\.\<close>
  takes it with the next character, which must not be a newline. At a quote no alternative
  applies, so the repetition ends there: the quote closes the name when \<open>UPDATE\<close> between two
  spaces follows. The result is the text consumed, the closing quote included.
\<close>

fun name_items :: "bool \<Rightarrow> string \<Rightarrow> string option" where
  "name_items ok [] = None"
| "name_items ok (c # cs) =
     (if c = dquote then (if ok \<and> prefix '' UPDATE '' cs then Some [c] else None)
      else (case name_items True cs of
              Some r \<Rightarrow> Some (c # r)
            | None \<Rightarrow>
                (if c = backslash then
                   (case cs of
                      [] \<Rightarrow> None
                    | d # ds \<Rightarrow>
                        if d = newline then None
                        else map_option (\<lambda>r. c # d # r) (name_items True ds))
                 else None)))"

text \<open>\<open>update_pattern.match(s)\<close>: \<open>None\<close>, or \<open>Some\<close> of \<open>m.group(1)\<close>, the quoted name.\<close>

definition update_pattern_match :: "string \<Rightarrow> string option" where
  "update_pattern_match s =
     (if prefix ''ALTER TABLE '' s then
        (case drop 12 s of
           [] \<Rightarrow> None
         | c # cs \<Rightarrow>
             if c = dquote then map_option (\<lambda>r. c # r) (name_items False cs) else None)
      else None)"

section \<open>The cursor\<close>

datatype error =
    InterfaceError string
  | OperationalError string
  | RuntimeError string
  | AttributeError
  | TypeError
  | ValueError

text \<open>
  The result classes a client assembles its results with, and the client (the pooled
  handle) as far as this file reads and writes it: \<open>client_settings["use_numpy"]\<close>, the
  three result classes and \<open>connection.hosts\<close>. \<open>ident\<close> tells handles apart.
\<close>

datatype result_cls =
    QueryResult | IterQueryResult | ProgressQueryResult
  | NumpyQueryResult | NumpyIterQueryResult | NumpyProgressQueryResult

record client =
  ident :: nat
  use_numpy_setting :: bool
  query_result_cls :: result_cls
  iter_query_result_cls :: result_cls
  progress_query_result_cls :: result_cls
  hosts :: "string list"

text \<open>
  The states of the inherited DB API cursor; this file names \<open>CURSOR_CLOSED\<close> only.
\<close>

datatype states = NONE | RUNNING | FINISHED | CURSOR_CLOSED

text \<open>
  A cursor: \<open>_client\<close>, \<open>_state\<close>, \<open>_rowcount\<close>, \<open>columnar\<close> (the class attribute is \<open>None\<close>),
  and under \<open>inherited\<close> whatever else the inherited cursor keeps (its rows, its columns).
\<close>

record 'b cursor =
  client :: client
  state :: states
  rowcount :: int
  columnar :: "bool option"
  inherited :: 'b

text \<open>
  What \<open>Cursor.execute\<close> calls and this file does not define. \<open>super().execute\<close>,
  \<open>fetchone\<close> and \<open>_reset_state\<close> are the inherited cursor's, \<open>substitute_params\<close> is the
  client's; each may raise, and then returns the error with the cursor as it left it.
  \<open>CLICKHOUSE_ENABLE_UPDATE_ROWCOUNT\<close> is the attribute of the Django settings, \<open>None\<close> when
  the settings do not define it.
\<close>

record ('p, 'b) driver =
  CLICKHOUSE_ENABLE_UPDATE_ROWCOUNT :: "bool option"
  substitute_params :: "client \<Rightarrow> string \<Rightarrow> 'p option \<Rightarrow> error + string"
  super_execute :: "string \<Rightarrow> 'p option \<Rightarrow> 'b cursor \<Rightarrow> error option \<times> 'b cursor"
  fetchone :: "'b cursor \<Rightarrow> (error + int list option) \<times> 'b cursor"
  reset_state :: "'b cursor \<Rightarrow> 'b cursor"

text \<open>\<open>getattr(settings, "CLICKHOUSE_ENABLE_UPDATE_ROWCOUNT", True)\<close>\<close>

definition flag_enabled :: "('p, 'b) driver \<Rightarrow> bool" where
  "flag_enabled env =
     (case CLICKHOUSE_ENABLE_UPDATE_ROWCOUNT env of None \<Rightarrow> True | Some b \<Rightarrow> b)"

text \<open>
  \<open>Cursor.execute\<close> returns, next to the error raised (if any) and the cursor, the calls
  of the inherited \<open>execute\<close> it made, in order: the statement and the parameters of each.
\<close>

datatype 'p call = Execute string "'p option"

section \<open>Cursor.execute\<close>

text \<open>
  Lines 159 to 166: the text after the last \<open>WHERE\<close> of the upper-cased statement, up to
  the last \<open>SETTINGS\<close> behind it; \<open>None\<close> when \<open>i > 0\<close> fails. The indices are those of
  \<open>query_upper\<close>; the slices are taken from \<open>query\<close>, as in the source.
\<close>

definition where_clause :: "string \<Rightarrow> string option" where
  "where_clause query =
     (let query_upper = upper query;
          i = rfind query_upper '' WHERE '' 0
      in if i > 0 then
           (let j = rfind query_upper '' SETTINGS '' (nat (i + 7))
            in if j > 0 then Some (take (nat j - nat (i + 7)) (drop (nat (i + 7)) query))
               else Some (drop (nat (i + 7)) query))
         else None)"

text \<open>\<^verbatim>\<open>f"select count(*) from {table} where {where}"\<close>\<close>

definition probe_query :: "string \<Rightarrow> string \<Rightarrow> string" where
  "probe_query table where_text = ''select count(*) from '' @ table @ '' where '' @ where_text"

text \<open>\<open>(rowcount,) = self.fetchone()\<close>: unpacking \<open>None\<close> or a row of another length raises.\<close>

definition unpack_rowcount :: "int list option \<Rightarrow> error + int" where
  "unpack_rowcount r =
     (case r of
        None \<Rightarrow> Inl TypeError
      | Some row \<Rightarrow> (case row of [n] \<Rightarrow> Inr n | _ \<Rightarrow> Inl ValueError))"

text \<open>
  Lines 154 to 170, the body of the \<open>if\<close>. The result is the error raised if any, the cursor,
  and the calls of the inherited \<open>execute\<close> made so far.
\<close>

definition emulate_rowcount ::
  "('p, 'b) driver \<Rightarrow> string \<Rightarrow> 'p option \<Rightarrow> 'b cursor \<Rightarrow> error option \<times> 'b cursor \<times> 'p call list"
where
  "emulate_rowcount env operation parameters c =
     (case substitute_params env (client c) operation parameters of
        Inl e \<Rightarrow> (Some e, c, [])
      | Inr query \<Rightarrow>
          (case update_pattern_match query of
             None \<Rightarrow> (Some AttributeError, c, [])
           | Some table \<Rightarrow>
               (case where_clause query of
                  None \<Rightarrow> (None, c, [])
                | Some where_text \<Rightarrow>
                    (let probe = probe_query table where_text in
                     case super_execute env probe None c of
                       (Some e, c1) \<Rightarrow> (Some e, c1, [Execute probe None])
                     | (None, c1) \<Rightarrow>
                         (case fetchone env c1 of
                            (Inl e, c2) \<Rightarrow> (Some e, c2, [Execute probe None])
                          | (Inr r, c2) \<Rightarrow>
                              (case unpack_rowcount r of
                                 Inl e \<Rightarrow> (Some e, c2, [Execute probe None])
                               | Inr n \<Rightarrow>
                                   (None, (reset_state env c2)\<lparr>rowcount := n\<rparr>,
                                    [Execute probe None])))))))"

definition execute ::
  "('p, 'b) driver \<Rightarrow> string \<Rightarrow> 'p option \<Rightarrow> 'b cursor \<Rightarrow> error option \<times> 'b cursor \<times> 'p call list"
where
  "execute env operation parameters c =
     (if flag_enabled env \<and> update_pattern_match operation \<noteq> None then
        (case emulate_rowcount env operation parameters c of
           (Some e, c1, calls) \<Rightarrow> (Some e, c1, calls)
         | (None, c1, calls) \<Rightarrow>
             (case super_execute env operation parameters c1 of
                (r, c2) \<Rightarrow> (r, c2, calls @ [Execute operation parameters])))
      else
        (case super_execute env operation parameters c of
           (r, c2) \<Rightarrow> (r, c2, [Execute operation parameters])))"


section \<open>Closing a cursor\<close>

text \<open>
  \<open>ClickhousePool\<close> is defined in \<open>.pool\<close>, outside this file: its state is a type
  parameter \<open>'q\<close> and its methods \<open>push\<close>, \<open>pull\<close> and \<open>cleanup\<close> are taken as they come;
  each may raise. A connection holds \<open>is_closed\<close>, \<open>_hosts\<close> and the pool.
\<close>

record 'q pool_ops =
  push :: "client \<Rightarrow> 'q \<Rightarrow> error option \<times> 'q"
  pull :: "'q \<Rightarrow> (error + client) \<times> 'q"
  cleanup :: "'q \<Rightarrow> error option \<times> 'q"

record 'q connection =
  is_closed :: bool
  hosts_cache :: "string list option"
  pool :: 'q

text \<open>The calls a method makes to the pool, in order.\<close>

datatype pool_call = Push client | Pull

definition closed :: "'b cursor \<Rightarrow> bool" where
  "closed c \<longleftrightarrow> state c = CURSOR_CLOSED"

text \<open>
  \<open>Cursor.close\<close>; \<open>conn\<close> is the cursor's \<open>_connection\<close>. The state is set before the handle
  is pushed, so it is set also when \<open>push\<close> raises. The result is the error raised if any,
  the cursor, the connection and the calls made to the pool.
\<close>

definition close ::
  "'q pool_ops \<Rightarrow> 'b cursor \<Rightarrow> 'q connection \<Rightarrow>
   error option \<times> 'b cursor \<times> 'q connection \<times> pool_call list"
where
  "close ops c conn =
     (if closed c then (None, c, conn, [])
      else
        (let c1 = c\<lparr>state := CURSOR_CLOSED\<rparr>
         in case push ops (client c1) (pool conn) of
              (r, q) \<Rightarrow> (r, c1, conn\<lparr>pool := q\<rparr>, [Push (client c1)])))"

text \<open>\<open>Cursor.__del__\<close>\<close>

definition del ::
  "'q pool_ops \<Rightarrow> 'b cursor \<Rightarrow> 'q connection \<Rightarrow>
   error option \<times> 'b cursor \<times> 'q connection \<times> pool_call list"
where
  "del ops c conn = (if \<not> closed c then close ops c conn else (None, c, conn, []))"

text \<open>
  A sequence of calls of \<open>close()\<close> and \<open>__del__()\<close> on one cursor, each run to its end
  before the next starts, whether it raised or not; the pool calls of all of them, in order.
\<close>

datatype release = Close | Del

fun releases ::
  "'q pool_ops \<Rightarrow> release list \<Rightarrow> 'b cursor \<Rightarrow> 'q connection \<Rightarrow>
   'b cursor \<times> 'q connection \<times> pool_call list"
where
  "releases ops [] c conn = (c, conn, [])"
| "releases ops (x # xs) c conn =
     (case (case x of Close \<Rightarrow> close ops c conn | Del \<Rightarrow> del ops c conn) of
        (r, c1, conn1, calls1) \<Rightarrow>
          (case releases ops xs c1 conn1 of
             (c2, conn2, calls2) \<Rightarrow> (c2, conn2, calls1 @ calls2)))"

section \<open>Query execution options\<close>

text \<open>The property \<open>use_numpy\<close>: its getter.\<close>

definition use_numpy :: "'b cursor \<Rightarrow> bool" where
  "use_numpy c = use_numpy_setting (client c)"

text \<open>
  The setter of \<open>use_numpy\<close>. \<open>numpy_installed\<close> says whether
  \<open>clickhouse_driver.numpy.result\<close> can be imported.
\<close>

definition set_use_numpy :: "bool \<Rightarrow> bool \<Rightarrow> 'b cursor \<Rightarrow> error option \<times> 'b cursor" where
  "set_use_numpy numpy_installed v c =
     (let c1 = c\<lparr>client := (client c)\<lparr>use_numpy_setting := v\<rparr>\<rparr>
      in if v then
           (if numpy_installed then
              (None,
               c1\<lparr>client := (client c1)
                    \<lparr>query_result_cls := NumpyQueryResult,
                     iter_query_result_cls := NumpyIterQueryResult,
                     progress_query_result_cls := NumpyProgressQueryResult\<rparr>\<rparr>)
            else (Some (RuntimeError ''Extras for NumPy must be installed''), c1))
         else
           (None,
            c1\<lparr>client := (client c1)
                 \<lparr>query_result_cls := QueryResult,
                  iter_query_result_cls := IterQueryResult,
                  progress_query_result_cls := ProgressQueryResult\<rparr>\<rparr>))"

text \<open>
  \<open>set_query_execution_args\<close> is a generator under \<open>@contextmanager\<close>. The code before
  the \<open>yield\<close> runs on entry of the \<open>with\<close> block and keeps the two original values; the
  code after it runs when the block ends.
\<close>

definition enter_query_execution_args ::
  "bool \<Rightarrow> bool option \<Rightarrow> bool option \<Rightarrow> 'b cursor \<Rightarrow> (error + bool \<times> bool option) \<times> 'b cursor"
where
  "enter_query_execution_args numpy_installed columnar_arg use_numpy_arg c =
     (let original_use_numpy = use_numpy c
      in case (case use_numpy_arg of
                 None \<Rightarrow> (None, c)
               | Some v \<Rightarrow> set_use_numpy numpy_installed v c) of
           (Some e, c1) \<Rightarrow> (Inl e, c1)
         | (None, c1) \<Rightarrow>
             (let original_columnar = columnar c1;
                  c2 = (case columnar_arg of None \<Rightarrow> c1 | Some v \<Rightarrow> c1\<lparr>columnar := Some v\<rparr>)
              in (Inr (original_use_numpy, original_columnar), c2)))"

definition exit_query_execution_args ::
  "bool \<Rightarrow> bool \<times> bool option \<Rightarrow> 'b cursor \<Rightarrow> error option \<times> 'b cursor"
where
  "exit_query_execution_args numpy_installed saved c =
     (case saved of
        (original_use_numpy, original_columnar) \<Rightarrow>
          (case set_use_numpy numpy_installed original_use_numpy c of
             (Some e, c1) \<Rightarrow> (Some e, c1)
           | (None, c1) \<Rightarrow> (None, c1\<lparr>columnar := original_columnar\<rparr>)))"

text \<open>
  \<^verbatim>\<open>with cursor.set_query_execution_args(columnar, use_numpy): body\<close>. An exception of the
  body is raised inside the generator at its \<open>yield\<close>; the generator has no handler around
  the \<open>yield\<close>, so the exception leaves it there and leaves the \<open>with\<close> statement.
\<close>

definition with_query_execution_args ::
  "bool \<Rightarrow> bool option \<Rightarrow> bool option \<Rightarrow> ('b cursor \<Rightarrow> error option \<times> 'b cursor) \<Rightarrow>
   'b cursor \<Rightarrow> error option \<times> 'b cursor"
where
  "with_query_execution_args numpy_installed columnar_arg use_numpy_arg body c =
     (case enter_query_execution_args numpy_installed columnar_arg use_numpy_arg c of
        (Inl e, c1) \<Rightarrow> (Some e, c1)
      | (Inr saved, c1) \<Rightarrow>
          (case body c1 of
             (Some e, c2) \<Rightarrow> (Some e, c2)
           | (None, c2) \<Rightarrow> exit_query_execution_args numpy_installed saved c2))"

section \<open>Connection\<close>

text \<open>\<open>Connection.close\<close>: \<open>is_closed\<close> is set once \<open>cleanup\<close> has returned.\<close>

definition connection_close ::
  "'q pool_ops \<Rightarrow> 'q connection \<Rightarrow> error option \<times> 'q connection"
where
  "connection_close ops conn =
     (case cleanup ops (pool conn) of
        (Some e, q) \<Rightarrow> (Some e, conn\<lparr>pool := q\<rparr>)
      | (None, q) \<Rightarrow> (None, conn\<lparr>pool := q, is_closed := True\<rparr>))"

text \<open>
  \<open>Connection.cursor\<close>. \<open>Cursor\<close> is the constructor of the class of this file, inherited
  from the DB API cursor; \<open>cursor_factory\<close> is the argument, \<open>None\<close> for a false value.
\<close>

definition connection_cursor ::
  "'q pool_ops \<Rightarrow> (client \<Rightarrow> 'b cursor) \<Rightarrow> (client \<Rightarrow> 'b cursor) option \<Rightarrow> 'q connection \<Rightarrow>
   (error + 'b cursor) \<times> 'q connection \<times> pool_call list"
where
  "connection_cursor ops Cursor cursor_factory conn =
     (if is_closed conn then (Inl (InterfaceError ''connection already closed''), conn, [])
      else
        (case pull ops (pool conn) of
           (Inl e, q) \<Rightarrow> (Inl e, conn\<lparr>pool := q\<rparr>, [Pull])
         | (Inr cl, q) \<Rightarrow>
             (let conn1 = conn\<lparr>pool := q\<rparr>;
                  make = (case cursor_factory of None \<Rightarrow> Cursor | Some f \<Rightarrow> f)
              in case hosts_cache conn1 of
                   None \<Rightarrow> (Inr (make cl), conn1\<lparr>hosts_cache := Some (hosts cl)\<rparr>, [Pull])
                 | Some h \<Rightarrow> (Inr (make (cl\<lparr>hosts := h\<rparr>)), conn1, [Pull]))))"

section \<open>send_query\<close>

text \<open>
  The routine that replaces \<open>clickhouse_driver.connection.Connection.send_query\<close>.
  The output \<open>fout\<close> is the sequence of the writes made to it, in order; \<open>Flush\<close> marks a
  flush. \<open>SettingsFlags\<close> are bits joined with \<open>|=\<close>: a set of flags.
\<close>

datatype settings_flag = IMPORTANT | CUSTOM

datatype 'v wire =
    Varint nat
  | BinaryStr string
  | ClientInfo string nat nat nat
  | Settings "(string \<times> 'v) list" bool "settings_flag set"
  | Flush

text \<open>
  The native connection as far as the routine reads it: \<open>server_info.used_revision\<close>,
  \<open>context.settings\<close>, \<open>context.client_settings["server_side_params"]\<close> and the attributes
  of the same names.
\<close>

record 'v native =
  connected :: bool
  used_revision :: nat
  client_name :: string
  client_revision :: nat
  context_settings :: "(string \<times> 'v) list"
  server_side_params :: bool
  settings_is_important :: bool
  compression :: nat
  fout :: "'v wire list"

text \<open>
  The constants of \<open>clickhouse_driver\<close> the routine names: four of \<open>defines\<close>,
  \<open>ClientPacketTypes.QUERY\<close>, \<open>QueryProcessingStage.COMPLETE\<close> and
  \<open>ClientInfo.QueryKind.INITIAL_QUERY\<close>.
\<close>

record protocol_defines =
  DBMS_MIN_REVISION_WITH_CLIENT_INFO :: nat
  DBMS_MIN_REVISION_WITH_SETTINGS_SERIALIZED_AS_STRINGS :: nat
  DBMS_MIN_REVISION_WITH_INTERSERVER_SECRET :: nat
  DBMS_MIN_PROTOCOL_VERSION_WITH_PARAMETERS :: nat
  QUERY :: nat
  COMPLETE :: nat
  INITIAL_QUERY :: nat

definition write_item :: "'v wire \<Rightarrow> 'v native \<Rightarrow> 'v native" where
  "write_item x self = self\<lparr>fout := fout self @ [x]\<rparr>"

text \<open>Lines 24 to 52: what is written before the query text.\<close>

definition write_header :: "protocol_defines \<Rightarrow> string option \<Rightarrow> 'v native \<Rightarrow> 'v native" where
  "write_header d query_id self =
     (let s1 = write_item (Varint (QUERY d)) self;
          s2 = write_item (BinaryStr (case query_id of None \<Rightarrow> [] | Some q \<Rightarrow> q)) s1;
          revision = used_revision s2;
          s3 = (if revision \<ge> DBMS_MIN_REVISION_WITH_CLIENT_INFO d
                then write_item (ClientInfo (client_name s2) (client_revision s2) (INITIAL_QUERY d) revision) s2
                else s2);
          settings_as_strings = (revision \<ge> DBMS_MIN_REVISION_WITH_SETTINGS_SERIALIZED_AS_STRINGS d);
          settings_flags = (if settings_is_important s3 then {} \<union> {IMPORTANT} else {});
          s4 = write_item (Settings (context_settings s3) settings_as_strings settings_flags) s3;
          s5 = (if revision \<ge> DBMS_MIN_REVISION_WITH_INTERSERVER_SECRET d
                then write_item (BinaryStr []) s4 else s4);
          s6 = write_item (Varint (COMPLETE d)) s5
      in write_item (Varint (compression s6)) s6)"

text \<open>
  \<open>send_query(self, query, query_id, params)\<close>. \<open>connect\<close> is the connection's own method
  and \<open>escape_params\<close> is \<open>escape_params(_, self.context, for_server=True)\<close> of \<open>.escape\<close>;
  each may raise. \<open>params or {}\<close> is the empty dictionary for \<open>None\<close>.
\<close>

definition send_query ::
  "protocol_defines \<Rightarrow> ('v native \<Rightarrow> error + 'v native) \<Rightarrow> ((string \<times> 'a) list \<Rightarrow> error + (string \<times> 'v) list) \<Rightarrow>
   'v native \<Rightarrow> string \<Rightarrow> string option \<Rightarrow> (string \<times> 'a) list option \<Rightarrow> error option \<times> 'v native"
where
  "send_query d connect escape_params self query query_id params =
     (case (if \<not> connected self then connect self else Inr self) of
        Inl e \<Rightarrow> (Some e, self)
      | Inr s0 \<Rightarrow>
          (let s1 = write_item (BinaryStr query) (write_header d query_id s0)
           in if used_revision s0 \<ge> DBMS_MIN_PROTOCOL_VERSION_WITH_PARAMETERS d then
                (case (if server_side_params s1
                       then escape_params (case params of None \<Rightarrow> [] | Some p \<Rightarrow> p)
                       else Inr []) of
                   Inl e \<Rightarrow> (Some e, s1)
                 | Inr escaped \<Rightarrow> (None, write_item Flush (write_item (Settings escaped True {CUSTOM}) s1)))
              else (None, write_item Flush s1)))"

section \<open>Stand-ins for the collaborators\<close>

text \<open>
  Concrete collaborators, for running the methods above on concrete inputs. The inherited
  cursor keeps the rows of its last statement; \<open>server\<close> answers a statement with an error
  message or with rows. A statement that returns no rows leaves \<open>_rowcount\<close> as it is.
  Parameters are a dictionary; the client of \<open>stub_driver\<close> takes the empty one only, for
  which the statement stays as it is.
\<close>

definition stub_execute ::
  "(string \<Rightarrow> string + int list list) \<Rightarrow> string \<Rightarrow> 'p option \<Rightarrow> (int list list) cursor \<Rightarrow>
   error option \<times> (int list list) cursor"
where
  "stub_execute server operation parameters c =
     (if state c = CURSOR_CLOSED then (Some (InterfaceError ''cursor already closed''), c)
      else
        (case server operation of
           Inl msg \<Rightarrow> (Some (OperationalError msg), c\<lparr>state := RUNNING\<rparr>)
         | Inr rows \<Rightarrow>
             (None,
              c\<lparr>state := FINISHED,
                rowcount := (if rows = [] then rowcount c else int (length rows)),
                inherited := rows\<rparr>)))"

definition stub_fetchone ::
  "(int list list) cursor \<Rightarrow> (error + int list option) \<times> (int list list) cursor"
where
  "stub_fetchone c =
     (case inherited c of
        [] \<Rightarrow> (Inr None, c)
      | row # rows \<Rightarrow> (Inr (Some row), c\<lparr>inherited := rows\<rparr>))"

definition stub_reset_state :: "(int list list) cursor \<Rightarrow> (int list list) cursor" where
  "stub_reset_state c = c\<lparr>state := NONE, rowcount := - 1, inherited := []\<rparr>"

definition stub_driver ::
  "bool option \<Rightarrow> (string \<Rightarrow> string + int list list) \<Rightarrow>
   ((string \<times> string) list, int list list) driver"
where
  "stub_driver flag server =
     \<lparr>CLICKHOUSE_ENABLE_UPDATE_ROWCOUNT = flag,
      substitute_params =
        (\<lambda>cl operation parameters. if parameters = Some [] then Inr operation else Inl ValueError),
      super_execute = stub_execute server,
      fetchone = stub_fetchone,
      reset_state = stub_reset_state\<rparr>"

definition client0 :: client where
  "client0 =
     \<lparr>ident = 0, use_numpy_setting = False, query_result_cls = QueryResult,
      iter_query_result_cls = IterQueryResult,
      progress_query_result_cls = ProgressQueryResult, hosts = []\<rparr>"

definition cursor0 :: "(int list list) cursor" where
  "cursor0 = \<lparr>client = client0, state = NONE, rowcount = - 1, columnar = None, inherited = []\<rparr>"

text \<open>A pool that keeps the handles pushed to it in a list and never creates one.\<close>

definition list_pool :: "(client list) pool_ops" where
  "list_pool =
     \<lparr>push = (\<lambda>cl q. (None, cl # q)),
      pull = (\<lambda>q. case q of [] \<Rightarrow> (Inl (OperationalError ''no handle''), q)
                   | cl # rest \<Rightarrow> (Inr cl, rest)),
      cleanup = (\<lambda>q. (None, []))\<rparr>"

definition connection0 :: "(client list) connection" where
  "connection0 = \<lparr>is_closed = False, hosts_cache = None, pool = []\<rparr>"

section \<open>Example statements\<close>

text \<open>
  The statement of the row-count scenario, and a server that counts seven rows for its
  probe and returns no rows for every other statement.
\<close>

definition update_statement :: string where
  \<open>update_statement = ''ALTER TABLE "t" UPDATE x = 1 WHERE id > 5''\<close>

definition count_server :: "string \<Rightarrow> string + int list list" where
  \<open>count_server q = (if q = ''select count(*) from "t" where id > 5'' then Inr [[7]] else Inr [])\<close>

text \<open>
  A statement without \<open>WHERE\<close>; a statement whose string literal holds \<open>SETTINGS\<close> between
  two spaces, the probe \<open>execute\<close> builds for it, and a server that rejects that probe; a
  statement whose new value is the sharp s; and the body of a \<open>with\<close> block that raises.
\<close>

definition bare_statement :: string where
  \<open>bare_statement = ''ALTER TABLE "t" UPDATE x = 1''\<close>

definition quoting_statement :: string where
  \<open>quoting_statement = ''ALTER TABLE "t" UPDATE x = 1 WHERE name = ' SETTINGS ' AND id > 5''\<close>

definition quoting_probe :: string where
  \<open>quoting_probe = ''select count(*) from "t" where name = '' @ [CHR 0x27]\<close>

definition strict_server :: "string \<Rightarrow> string + int list list" where
  "strict_server q = (if q = quoting_probe then Inl ''Syntax error'' else Inr [])"

definition sharp_s_statement :: string where
  \<open>sharp_s_statement =
     ''ALTER TABLE "t" UPDATE s = '' @ [CHR 0x27, CHR 0xDF, CHR 0x27] @
     '' WHERE id > 5 SETTINGS max_threads = 2''\<close>

definition failing_body :: "(int list list) cursor \<Rightarrow> error option \<times> (int list list) cursor" where
  "failing_body c = (Some (OperationalError ''failed''), c)"

text \<open>
  Constants of the protocol and a connected native connection of a server revision that
  takes parameters.
\<close>

definition defines0 :: protocol_defines where
  "defines0 =
     \<lparr>DBMS_MIN_REVISION_WITH_CLIENT_INFO = 54032,
      DBMS_MIN_REVISION_WITH_SETTINGS_SERIALIZED_AS_STRINGS = 54429,
      DBMS_MIN_REVISION_WITH_INTERSERVER_SECRET = 54441,
      DBMS_MIN_PROTOCOL_VERSION_WITH_PARAMETERS = 54459,
      QUERY = 1, COMPLETE = 2, INITIAL_QUERY = 1\<rparr>"

definition native0 :: "string native" where
  "native0 =
     \<lparr>connected = True, used_revision = 54468, client_name = ''python-driver'',
      client_revision = 54468, context_settings = [], server_side_params = True,
      settings_is_important = False, compression = 0, fout = []\<rparr>"

section \<open>Properties of the text operations\<close>


lemma rfind_scan_cases:
  "(rfind_scan s sub start k best = best \<and>
      (\<forall>i<length s. start \<le> k + i \<longrightarrow> \<not> prefix sub (drop i s)))
   \<or> (\<exists>i<length s. start \<le> k + i \<and> prefix sub (drop i s) \<and>
         (\<forall>i'<length s. i < i' \<longrightarrow> start \<le> k + i' \<longrightarrow> \<not> prefix sub (drop i' s)) \<and>
         rfind_scan s sub start k best = int (k + i))"
proof (induction s arbitrary: k best)
  case Nil
  then show ?case by simp
next
  case (Cons c cs)
  let ?b = "if start \<le> k \<and> prefix sub (c # cs) then int k else best"
  from Cons.IH [of "Suc k" ?b]
  show ?case
  proof (elim disjE conjE exE)
    assume eq: "rfind_scan cs sub start (Suc k) ?b = ?b"
      and none: "\<forall>i<length cs. start \<le> Suc k + i \<longrightarrow> \<not> prefix sub (drop i cs)"
    have later: "\<forall>i'<length (c # cs). 0 < i' \<longrightarrow> start \<le> k + i' \<longrightarrow> \<not> prefix sub (drop i' (c # cs))"
    proof (intro allI impI)
      fix i' assume a: "i' < length (c # cs)" "0 < i'" "start \<le> k + i'"
      then obtain m where m: "i' = Suc m" by (cases i') auto
      with a none show "\<not> prefix sub (drop i' (c # cs))" by simp
    qed
    show ?thesis
    proof (cases "start \<le> k \<and> prefix sub (c # cs)")
      case True
      then have "?b = int k" by simp
      with eq have "rfind_scan (c # cs) sub start k best = int (k + 0)" by simp
      with True later show ?thesis
        by (intro disjI2 exI [of _ 0]) simp
    next
      case False
      have "\<forall>i<length (c # cs). start \<le> k + i \<longrightarrow> \<not> prefix sub (drop i (c # cs))"
      proof (intro allI impI)
        fix i assume a: "i < length (c # cs)" "start \<le> k + i"
        show "\<not> prefix sub (drop i (c # cs))"
        proof (cases i)
          case 0
          with False a show ?thesis by simp
        next
          case (Suc m)
          with a none show ?thesis by simp
        qed
      qed
      moreover from False have "?b = best" by auto
      with eq have "rfind_scan (c # cs) sub start k best = best" by simp
      ultimately show ?thesis by blast
    qed
  next
    fix i
    assume a: "i < length cs" "start \<le> Suc k + i" "prefix sub (drop i cs)"
      "\<forall>i'<length cs. i < i' \<longrightarrow> start \<le> Suc k + i' \<longrightarrow> \<not> prefix sub (drop i' cs)"
      "rfind_scan cs sub start (Suc k) ?b = int (Suc k + i)"
    have "\<forall>i'<length (c # cs). Suc i < i' \<longrightarrow> start \<le> k + i' \<longrightarrow> \<not> prefix sub (drop i' (c # cs))"
    proof (intro allI impI)
      fix i' assume b: "i' < length (c # cs)" "Suc i < i'" "start \<le> k + i'"
      then obtain m where m: "i' = Suc m" by (cases i') auto
      with a(4) b show "\<not> prefix sub (drop i' (c # cs))" by simp
    qed
    moreover from a(5) have "rfind_scan (c # cs) sub start k best = int (k + Suc i)" by simp
    ultimately show ?thesis using a(1-3)
      by (intro disjI2 exI [of _ "Suc i"]) simp
  qed
qed

lemma rfind_cases:
  "(rfind s sub start = - 1 \<and> (\<forall>i<length s. start \<le> i \<longrightarrow> \<not> prefix sub (drop i s)))
   \<or> (\<exists>i<length s. start \<le> i \<and> prefix sub (drop i s) \<and>
         (\<forall>i'<length s. i < i' \<longrightarrow> \<not> prefix sub (drop i' s)) \<and>
         rfind s sub start = int i)"
proof -
  from rfind_scan_cases [of s sub start 0 "- 1"]
  show ?thesis
  proof (elim disjE conjE exE)
    assume "rfind_scan s sub start 0 (- 1) = - 1"
      "\<forall>i<length s. start \<le> 0 + i \<longrightarrow> \<not> prefix sub (drop i s)"
    then show ?thesis by (simp add: rfind_def)
  next
    fix i
    assume a: "i < length s" "start \<le> 0 + i" "prefix sub (drop i s)"
      "\<forall>i'<length s. i < i' \<longrightarrow> start \<le> 0 + i' \<longrightarrow> \<not> prefix sub (drop i' s)"
      "rfind_scan s sub start 0 (- 1) = int (0 + i)"
    have "\<forall>i'<length s. i < i' \<longrightarrow> \<not> prefix sub (drop i' s)"
    proof (intro allI impI)
      fix i' assume b: "i' < length s" "i < i'"
      with a(2) have "start \<le> 0 + i'" by simp
      with a(4) b show "\<not> prefix sub (drop i' s)" by blast
    qed
    with a(1,2,3,5) show ?thesis
      by (intro disjI2 exI [of _ i]) (simp add: rfind_def)
  qed
qed


lemma upper_append: "upper (a @ b) = upper a @ upper b"
  by (simp add: upper_def)

lemma update_pattern_match_prefix:
  "update_pattern_match q = Some t \<Longrightarrow> prefix ''ALTER TABLE '' q"
  by (simp add: update_pattern_match_def split: if_splits)

text \<open>
  The name a match gives is the quoted text between \<open>ALTER TABLE\<close> and \<open>UPDATE\<close>.
\<close>

lemma name_items_name:
  "name_items ok s = Some r \<Longrightarrow> prefix (r @ '' UPDATE '') s \<and> r \<noteq> [] \<and> last r = dquote"
proof (induction ok s arbitrary: r rule: name_items.induct)
  case (1 ok)
  then show ?case by simp
next
  case (2 ok c cs)
  show ?case
  proof (cases "c = dquote")
    case True
    with "2.prems" show ?thesis by (auto split: if_splits)
  next
    case False
    show ?thesis
    proof (cases "name_items True cs")
      case (Some r')
      with False "2.prems" have r: "r = c # r'" by simp
      from "2.IH"(1) [OF False Some] r show ?thesis by auto
    next
      case None
      with False "2.prems" obtain d ds r' where
        b: "c = backslash" and cs: "cs = d # ds" and d: "d \<noteq> newline"
        and n: "name_items True ds = Some r'" and r: "r = c # d # r'"
        by (auto split: if_splits list.splits)
      from "2.IH"(2) [OF False None b cs d n] r cs show ?thesis by auto
    qed
  qed
qed

lemma update_pattern_match_name:
  assumes "update_pattern_match q = Some t"
  shows "prefix (''ALTER TABLE '' @ t @ '' UPDATE '') q \<and> hd t = dquote \<and> last t = dquote"
proof -
  from assms obtain rest where q: "q = ''ALTER TABLE '' @ rest"
    using update_pattern_match_prefix prefixE by blast
  with assms obtain cs r where rest: "rest = dquote # cs" and n: "name_items False cs = Some r"
    and t: "t = dquote # r"
    by (auto simp: update_pattern_match_def split: list.splits if_splits)
  from name_items_name [OF n] have "prefix (r @ '' UPDATE '') cs" "r \<noteq> []" "last r = dquote"
    by simp_all
  with q rest t show ?thesis by simp
qed

lemma upper_ALTER: "upper ''ALTER TABLE '' = ''ALTER TABLE ''"
  by (simp add: upper_def upper_char_def lowercase_def uppercase_def)

lemma upper_matched:
  assumes "update_pattern_match q = Some t"
  shows "\<exists>r. upper q = CHR ''A'' # r"
proof -
  from assms obtain r where "q = ''ALTER TABLE '' @ r"
    using update_pattern_match_prefix prefixE by blast
  then have "upper q = upper ''ALTER TABLE '' @ upper r"
    by (simp only: upper_append)
  then show ?thesis by (simp add: upper_ALTER)
qed

lemma sublist_occurrence:
  assumes "sub \<noteq> []"
  shows "sublist sub s \<longleftrightarrow> (\<exists>i<length s. prefix sub (drop i s))"
proof
  assume "sublist sub s"
  then obtain ps ss where s: "s = ps @ sub @ ss" by (auto simp: sublist_def)
  with assms have "length ps < length s" by (cases sub) auto
  moreover from s have "prefix sub (drop (length ps) s)" by simp
  ultimately show "\<exists>i<length s. prefix sub (drop i s)" by blast
next
  assume "\<exists>i<length s. prefix sub (drop i s)"
  then obtain i ss where "drop i s = sub @ ss" by (auto simp: prefix_def)
  then have "s = take i s @ sub @ ss" by (metis append_take_drop_id)
  then show "sublist sub s" unfolding sublist_def by blast
qed

lemma rfind_absent:
  assumes "sub \<noteq> []" "\<not> sublist sub s"
  shows "rfind s sub 0 = - 1"
  using rfind_cases [of s sub 0] assms by (auto simp: sublist_occurrence)

lemma rfind_present:
  assumes "sub \<noteq> []" "sublist sub s"
  shows "\<exists>i<length s. rfind s sub 0 = int i \<and> prefix sub (drop i s)"
  using rfind_cases [of s sub 0] assms by (auto simp: sublist_occurrence)

lemma where_clause_None:
  assumes "\<not> sublist '' WHERE '' (upper query)"
  shows "where_clause query = None"
proof -
  from assms have "rfind (upper query) '' WHERE '' 0 = - 1"
    by (intro rfind_absent) simp_all
  then show ?thesis by (simp add: where_clause_def)
qed

lemma where_clause_Some:
  assumes m: "update_pattern_match query = Some table"
    and w: "sublist '' WHERE '' (upper query)"
  shows "\<exists>w. where_clause query = Some w"
proof -
  from w obtain i where i: "rfind (upper query) '' WHERE '' 0 = int i"
    "prefix '' WHERE '' (drop i (upper query))"
    using rfind_present [of "'' WHERE ''" "upper query"] by auto
  from m obtain r where r: "upper query = CHR ''A'' # r" using upper_matched by blast
  have "i \<noteq> 0"
  proof
    assume "i = 0"
    with i(2) r show False by simp
  qed
  with i(1) have "rfind (upper query) '' WHERE '' 0 > 0" by simp
  then show ?thesis by (simp add: where_clause_def Let_def)
qed


section \<open>Row-count emulation\<close>

text \<open>
  The order of the calls. Let the emulation flag be enabled, let the operation match the
  shape \<open>ALTER TABLE <quoted name> UPDATE\<close>, and let the statement obtained by substituting
  the parameters match it too and contain \<open>WHERE\<close> between two spaces, in either case. Then
  a text \<open>w\<close> is extracted, and whenever the probe built from it, executed without
  parameters on the same cursor, returns and \<open>fetchone\<close> gives a row of one value \<open>n\<close>,
  \<open>execute\<close> resets the cursor's state, sets its \<open>_rowcount\<close> to \<open>n\<close> and then executes the
  original operation with the original parameters on that cursor.
\<close>

lemma execute_probe_then_statement:
  assumes flag: "flag_enabled env"
    and shape: "update_pattern_match operation \<noteq> None"
    and subst: "substitute_params env (client c) operation parameters = Inr query"
    and table: "update_pattern_match query = Some table"
    and wh: "sublist '' WHERE '' (upper query)"
  shows "\<exists>w. where_clause query = Some w \<and>
           (\<forall>c1 c2 n.
              super_execute env (probe_query table w) None c = (None, c1) \<longrightarrow>
              fetchone env c1 = (Inr (Some [n]), c2) \<longrightarrow>
              execute env operation parameters c =
                (fst (super_execute env operation parameters ((reset_state env c2)\<lparr>rowcount := n\<rparr>)),
                 snd (super_execute env operation parameters ((reset_state env c2)\<lparr>rowcount := n\<rparr>)),
                 [Execute (probe_query table w) None, Execute operation parameters]))"
proof -
  from table wh obtain w where w: "where_clause query = Some w"
    using where_clause_Some by blast
  have "execute env operation parameters c =
          (fst (super_execute env operation parameters ((reset_state env c2)\<lparr>rowcount := n\<rparr>)),
           snd (super_execute env operation parameters ((reset_state env c2)\<lparr>rowcount := n\<rparr>)),
           [Execute (probe_query table w) None, Execute operation parameters])"
    if p: "super_execute env (probe_query table w) None c = (None, c1)"
      and f: "fetchone env c1 = (Inr (Some [n]), c2)" for c1 c2 n
  proof -
    have "emulate_rowcount env operation parameters c =
            (None, (reset_state env c2)\<lparr>rowcount := n\<rparr>, [Execute (probe_query table w) None])"
      by (simp add: emulate_rowcount_def subst table w p f unpack_rowcount_def)
    with flag shape show ?thesis
      by (simp add: execute_def split: prod.split)
  qed
  with w show ?thesis by blast
qed


text \<open>
  The scenario of the specification: the probe of
  \<open>ALTER TABLE "t" UPDATE x = 1 WHERE id > 5\<close> returns 7, the reported row count is 7 and
  the statement is executed after the probe.
\<close>

lemma update_statement_match: "update_pattern_match update_statement = Some [dquote, CHR ''t'', dquote]"
  by (simp add: update_statement_def update_pattern_match_def dquote_def backslash_def newline_def)

lemma update_statement_upper: \<open>upper update_statement = ''ALTER TABLE "T" UPDATE X = 1 WHERE ID > 5''\<close>
  by (simp add: update_statement_def upper_def upper_char_def lowercase_def uppercase_def)

lemma update_statement_where: "where_clause update_statement = Some ''id > 5''"
  by (simp add: where_clause_def update_statement_upper rfind_def) (simp add: update_statement_def)

lemma execute_probe_then_statement_scenario:
  \<open>execute (stub_driver None count_server) update_statement (Some []) cursor0 =
     (None, cursor0\<lparr>state := FINISHED, rowcount := 7\<rparr>,
      [Execute ''select count(*) from "t" where id > 5'' None, Execute update_statement (Some [])])\<close>
proof -
  let ?env = "stub_driver None count_server :: ((string \<times> string) list, int list list) driver"
  let ?t = "[dquote, CHR ''t'', dquote]"
  have flag: "flag_enabled ?env" by (simp add: flag_enabled_def stub_driver_def)
  have shape: "update_pattern_match update_statement \<noteq> None"
    by (simp add: update_statement_match)
  have subst: "substitute_params ?env (client cursor0) update_statement (Some []) = Inr update_statement"
    by (simp add: stub_driver_def)
  have wh: "sublist '' WHERE '' (upper update_statement)"
    by (simp add: update_statement_upper sublist_Cons_right)
  from execute_probe_then_statement [OF flag shape subst update_statement_match wh]
  obtain w where w: "where_clause update_statement = Some w"
    and run: "\<And>c1 c2 n.
      super_execute ?env (probe_query ?t w) None cursor0 = (None, c1) \<Longrightarrow>
      fetchone ?env c1 = (Inr (Some [n]), c2) \<Longrightarrow>
      execute ?env update_statement (Some []) cursor0 =
        (fst (super_execute ?env update_statement (Some []) ((reset_state ?env c2)\<lparr>rowcount := n\<rparr>)),
         snd (super_execute ?env update_statement (Some []) ((reset_state ?env c2)\<lparr>rowcount := n\<rparr>)),
         [Execute (probe_query ?t w) None, Execute update_statement (Some [])])"
    by blast
  from w have w': "w = ''id > 5''" by (simp add: update_statement_where)
  have probe: \<open>probe_query ?t w = ''select count(*) from "t" where id > 5''\<close>
    by (simp add: w' probe_query_def dquote_def)
  have p: "super_execute ?env (probe_query ?t w) None cursor0 =
             (None, cursor0\<lparr>state := FINISHED, rowcount := 1, inherited := [[7]]\<rparr>)"
    by (simp add: probe stub_driver_def stub_execute_def count_server_def cursor0_def)
  have f: "fetchone ?env (cursor0\<lparr>state := FINISHED, rowcount := 1, inherited := [[7]]\<rparr>) =
             (Inr (Some [7]), cursor0\<lparr>state := FINISHED, rowcount := 1, inherited := []\<rparr>)"
    by (simp add: stub_driver_def stub_fetchone_def cursor0_def)
  have u: \<open>update_statement \<noteq> ''select count(*) from "t" where id > 5''\<close>
    by (simp add: update_statement_def)
  from run [OF p f] show ?thesis
    by (simp add: probe stub_driver_def stub_reset_state_def stub_execute_def count_server_def
        cursor0_def u)
qed

text \<open>
  Claim C4. Let the operation match the shape, and let the statement obtained by
  substituting the parameters match it too and contain no \<open>WHERE\<close> between two spaces, in
  either case. Then \<open>execute\<close> issues no probe and sets no row count: its only call of the
  inherited \<open>execute\<close> is the original statement with the original parameters, on the cursor
  as it was, and the outcome is the one of that call. This holds whether the flag is enabled
  or not.
\<close>

theorem execute_without_where:
  assumes shape: "update_pattern_match operation \<noteq> None"
    and subst: "substitute_params env (client c) operation parameters = Inr query"
    and table: "update_pattern_match query = Some table"
    and wh: "\<not> sublist '' WHERE '' (upper query)"
  shows "execute env operation parameters c =
           (fst (super_execute env operation parameters c),
            snd (super_execute env operation parameters c),
            [Execute operation parameters])"
proof -
  from wh have "where_clause query = None" by (rule where_clause_None)
  then have "emulate_rowcount env operation parameters c = (None, c, [])"
    by (simp add: emulate_rowcount_def subst table)
  then show ?thesis
    by (simp add: execute_def split: prod.split)
qed

lemma bare_statement_match: "update_pattern_match bare_statement = Some [dquote, CHR ''t'', dquote]"
  by (simp add: bare_statement_def update_pattern_match_def dquote_def backslash_def newline_def)

lemma bare_statement_upper: \<open>upper bare_statement = ''ALTER TABLE "T" UPDATE X = 1''\<close>
  by (simp add: bare_statement_def upper_def upper_char_def lowercase_def uppercase_def)

theorem execute_without_where_witness:
  "execute (stub_driver None count_server) bare_statement (Some []) cursor0 =
     (None, cursor0\<lparr>state := FINISHED\<rparr>, [Execute bare_statement (Some [])])"
proof -
  let ?env = "stub_driver None count_server :: ((string \<times> string) list, int list list) driver"
  have shape: "update_pattern_match bare_statement \<noteq> None"
    by (simp add: bare_statement_match)
  have subst: "substitute_params ?env (client cursor0) bare_statement (Some []) = Inr bare_statement"
    by (simp add: stub_driver_def)
  have wh: "\<not> sublist '' WHERE '' (upper bare_statement)"
    by (simp add: bare_statement_upper sublist_Cons_right)
  have u: \<open>bare_statement \<noteq> ''select count(*) from "t" where id > 5''\<close>
    by (simp add: bare_statement_def)
  from execute_without_where [OF shape subst bare_statement_match wh] show ?thesis
    by (simp add: stub_driver_def stub_execute_def count_server_def cursor0_def u)
qed


section \<open>The original statement\<close>

lemma probe_is_not_the_operation:
  assumes "update_pattern_match operation \<noteq> None"
  shows "probe_query t w \<noteq> operation"
proof -
  from assms obtain r where "operation = ''ALTER TABLE '' @ r"
    using update_pattern_match_prefix prefixE by blast
  then show ?thesis by (simp add: probe_query_def)
qed

lemma unpack_rowcount_Some:
  "unpack_rowcount (Some row) = (if length row = 1 then Inr (hd row) else Inl ValueError)"
  by (cases row; cases "tl row") (auto simp: unpack_rowcount_def)

text \<open>
  Claim C10, as amended. The original operation and parameters are handed unchanged to
  the inherited \<open>execute\<close> exactly once, as the last call, in each of these cases: the flag
  is disabled or the operation does not match the shape (the only call); the substituted
  statement has no \<open>WHERE\<close> (the only call); the probe returns and \<open>fetchone\<close> gives a row
  of one value (the second call, behind the probe, which is another statement and has no
  parameters). In every other case \<open>execute\<close> raises before the original statement and
  does not execute it: with the error of \<open>substitute_params\<close>; with \<open>AttributeError\<close> when
  the substituted statement does not match the shape; with the error of the probe; with the
  error of \<open>fetchone\<close>; with \<open>TypeError\<close> when \<open>fetchone\<close> gives \<open>None\<close>; with \<open>ValueError\<close>
  when the row has not exactly one value.
\<close>

theorem execute_runs_statement_once:
  "(\<not> (flag_enabled env \<and> update_pattern_match operation \<noteq> None) \<longrightarrow>
      execute env operation parameters c =
        (case super_execute env operation parameters c of
           (r, c') \<Rightarrow> (r, c', [Execute operation parameters])))
   \<and> (flag_enabled env \<and> update_pattern_match operation \<noteq> None \<longrightarrow>
      (\<forall>e. substitute_params env (client c) operation parameters = Inl e \<longrightarrow>
           execute env operation parameters c = (Some e, c, []))
    \<and> (\<forall>query. substitute_params env (client c) operation parameters = Inr query \<longrightarrow>
         (update_pattern_match query = None \<longrightarrow>
            execute env operation parameters c = (Some AttributeError, c, []))
       \<and> (\<forall>table. update_pattern_match query = Some table \<longrightarrow>
            (where_clause query = None \<longrightarrow>
               execute env operation parameters c =
                 (case super_execute env operation parameters c of
                    (r, c') \<Rightarrow> (r, c', [Execute operation parameters])))
          \<and> (\<forall>w. where_clause query = Some w \<longrightarrow>
               probe_query table w \<noteq> operation
             \<and> (\<forall>e c1. super_execute env (probe_query table w) None c = (Some e, c1) \<longrightarrow>
                    execute env operation parameters c =
                      (Some e, c1, [Execute (probe_query table w) None]))
             \<and> (\<forall>c1. super_execute env (probe_query table w) None c = (None, c1) \<longrightarrow>
                  (\<forall>e c2. fetchone env c1 = (Inl e, c2) \<longrightarrow>
                     execute env operation parameters c =
                       (Some e, c2, [Execute (probe_query table w) None]))
                \<and> (\<forall>c2. fetchone env c1 = (Inr None, c2) \<longrightarrow>
                     execute env operation parameters c =
                       (Some TypeError, c2, [Execute (probe_query table w) None]))
                \<and> (\<forall>row c2. fetchone env c1 = (Inr (Some row), c2) \<longrightarrow> length row \<noteq> 1 \<longrightarrow>
                     execute env operation parameters c =
                       (Some ValueError, c2, [Execute (probe_query table w) None]))
                \<and> (\<forall>n c2. fetchone env c1 = (Inr (Some [n]), c2) \<longrightarrow>
                     execute env operation parameters c =
                       (case super_execute env operation parameters
                               ((reset_state env c2)\<lparr>rowcount := n\<rparr>) of
                          (r, c') \<Rightarrow>
                            (r, c', [Execute (probe_query table w) None,
                                     Execute operation parameters]))))))))"
proof (intro conjI impI allI)
  assume "\<not> (flag_enabled env \<and> update_pattern_match operation \<noteq> None)"
  then show "execute env operation parameters c =
        (case super_execute env operation parameters c of
           (r, c') \<Rightarrow> (r, c', [Execute operation parameters]))"
    unfolding execute_def by (rule if_not_P)
next
  fix e
  assume "flag_enabled env \<and> update_pattern_match operation \<noteq> None"
    "substitute_params env (client c) operation parameters = Inl e"
  then show "execute env operation parameters c = (Some e, c, [])"
    by (simp add: execute_def emulate_rowcount_def)
next
  fix query
  assume "flag_enabled env \<and> update_pattern_match operation \<noteq> None"
    "substitute_params env (client c) operation parameters = Inr query"
    "update_pattern_match query = None"
  then show "execute env operation parameters c = (Some AttributeError, c, [])"
    by (simp add: execute_def emulate_rowcount_def)
next
  fix query table
  assume "flag_enabled env \<and> update_pattern_match operation \<noteq> None"
    "substitute_params env (client c) operation parameters = Inr query"
    "update_pattern_match query = Some table" "where_clause query = None"
  then show "execute env operation parameters c =
                 (case super_execute env operation parameters c of
                    (r, c') \<Rightarrow> (r, c', [Execute operation parameters]))"
    by (simp add: execute_def emulate_rowcount_def)
next
  fix query table w
  assume "flag_enabled env \<and> update_pattern_match operation \<noteq> None"
  then show "probe_query table w \<noteq> operation"
    by (simp add: probe_is_not_the_operation)
next
  fix query table w e c1
  assume "flag_enabled env \<and> update_pattern_match operation \<noteq> None"
    "substitute_params env (client c) operation parameters = Inr query"
    "update_pattern_match query = Some table" "where_clause query = Some w"
    "super_execute env (probe_query table w) None c = (Some e, c1)"
  then show "execute env operation parameters c =
               (Some e, c1, [Execute (probe_query table w) None])"
    by (simp add: execute_def emulate_rowcount_def)
next
  fix query table w c1 e c2
  assume "flag_enabled env \<and> update_pattern_match operation \<noteq> None"
    "substitute_params env (client c) operation parameters = Inr query"
    "update_pattern_match query = Some table" "where_clause query = Some w"
    "super_execute env (probe_query table w) None c = (None, c1)"
    "fetchone env c1 = (Inl e, c2)"
  then show "execute env operation parameters c =
               (Some e, c2, [Execute (probe_query table w) None])"
    by (simp add: execute_def emulate_rowcount_def)
next
  fix query table w c1 c2
  assume "flag_enabled env \<and> update_pattern_match operation \<noteq> None"
    "substitute_params env (client c) operation parameters = Inr query"
    "update_pattern_match query = Some table" "where_clause query = Some w"
    "super_execute env (probe_query table w) None c = (None, c1)"
    "fetchone env c1 = (Inr None, c2)"
  then show "execute env operation parameters c =
               (Some TypeError, c2, [Execute (probe_query table w) None])"
    by (simp add: execute_def emulate_rowcount_def unpack_rowcount_def)
next
  fix query table w c1 row c2
  assume "flag_enabled env \<and> update_pattern_match operation \<noteq> None"
    "substitute_params env (client c) operation parameters = Inr query"
    "update_pattern_match query = Some table" "where_clause query = Some w"
    "super_execute env (probe_query table w) None c = (None, c1)"
    "fetchone env c1 = (Inr (Some row), c2)" "length row \<noteq> 1"
  then show "execute env operation parameters c =
               (Some ValueError, c2, [Execute (probe_query table w) None])"
    by (simp add: execute_def emulate_rowcount_def unpack_rowcount_Some)
next
  fix query table w c1 n c2
  assume "flag_enabled env \<and> update_pattern_match operation \<noteq> None"
    "substitute_params env (client c) operation parameters = Inr query"
    "update_pattern_match query = Some table" "where_clause query = Some w"
    "super_execute env (probe_query table w) None c = (None, c1)"
    "fetchone env c1 = (Inr (Some [n]), c2)"
  then show "execute env operation parameters c =
               (case super_execute env operation parameters
                       ((reset_state env c2)\<lparr>rowcount := n\<rparr>) of
                  (r, c') \<Rightarrow>
                    (r, c', [Execute (probe_query table w) None,
                             Execute operation parameters]))"
    by (simp add: execute_def emulate_rowcount_def unpack_rowcount_Some)
qed

text \<open>
  With the flag disabled the scenario statement is the only call; with the flag enabled
  it is the second call, behind the probe that counts seven rows.
\<close>

theorem execute_runs_statement_once_witness:
  \<open>execute (stub_driver (Some False) count_server) update_statement (Some []) cursor0 =
     (None, cursor0\<lparr>state := FINISHED\<rparr>, [Execute update_statement (Some [])])
   \<and> execute (stub_driver None count_server) update_statement (Some []) cursor0 =
     (None, cursor0\<lparr>state := FINISHED, rowcount := 7\<rparr>,
      [Execute ''select count(*) from "t" where id > 5'' None,
       Execute update_statement (Some [])])\<close>
proof
  let ?off = "stub_driver (Some False) count_server"
  have off: "\<not> (flag_enabled ?off \<and> update_pattern_match update_statement \<noteq> None)"
    by (simp add: flag_enabled_def stub_driver_def)
  have u: \<open>update_statement \<noteq> ''select count(*) from "t" where id > 5''\<close>
    by (simp add: update_statement_def)
  from execute_runs_statement_once
         [where env = ?off and operation = update_statement and parameters = "Some []"
            and c = cursor0, THEN conjunct1, rule_format, OF off]
  show "execute ?off update_statement (Some []) cursor0 =
          (None, cursor0\<lparr>state := FINISHED\<rparr>, [Execute update_statement (Some [])])"
    by (simp add: stub_driver_def stub_execute_def count_server_def cursor0_def u)
next
  let ?env = "stub_driver None count_server"
  let ?t = "[dquote, CHR ''t'', dquote]"
  have on: "flag_enabled ?env \<and> update_pattern_match update_statement \<noteq> None"
    by (simp add: flag_enabled_def stub_driver_def update_statement_match)
  have subst: "substitute_params ?env (client cursor0) update_statement (Some []) = Inr update_statement"
    by (simp add: stub_driver_def)
  have probe: \<open>probe_query ?t ''id > 5'' = ''select count(*) from "t" where id > 5''\<close>
    by (simp add: probe_query_def dquote_def)
  have p: "super_execute ?env (probe_query ?t ''id > 5'') None cursor0 =
             (None, cursor0\<lparr>state := FINISHED, rowcount := 1, inherited := [[7]]\<rparr>)"
    by (simp add: probe stub_driver_def stub_execute_def count_server_def cursor0_def)
  have f: "fetchone ?env (cursor0\<lparr>state := FINISHED, rowcount := 1, inherited := [[7]]\<rparr>) =
             (Inr (Some [7]), cursor0\<lparr>state := FINISHED, rowcount := 1, inherited := []\<rparr>)"
    by (simp add: stub_driver_def stub_fetchone_def cursor0_def)
  have u: \<open>update_statement \<noteq> ''select count(*) from "t" where id > 5''\<close>
    by (simp add: update_statement_def)
  note a = execute_runs_statement_once
         [where env = ?env and operation = update_statement and parameters = "Some []"
            and c = cursor0, THEN conjunct2, rule_format, OF on]
  note b = a [THEN conjunct2, rule_format, OF subst]
  note c = b [THEN conjunct2, rule_format, OF update_statement_match]
  note d = c [THEN conjunct2, rule_format, OF update_statement_where]
  note e = d [THEN conjunct2, THEN conjunct2, rule_format, OF p]
  note g = e [THEN conjunct2, THEN conjunct2, THEN conjunct2, rule_format, OF f]
  from g show \<open>execute ?env update_statement (Some []) cursor0 =
     (None, cursor0\<lparr>state := FINISHED, rowcount := 7\<rparr>,
      [Execute ''select count(*) from "t" where id > 5'' None,
       Execute update_statement (Some [])])\<close>
    by (simp add: probe stub_driver_def stub_reset_state_def stub_execute_def count_server_def
        cursor0_def u)
qed

text \<open>
  The claim as stated fails where the probe raises: for
  \<open>ALTER TABLE "t" UPDATE x = 1 WHERE name = ' SETTINGS ' AND id > 5\<close> the text taken for the
  predicate ends inside the string literal, the server rejects the probe, and the statement
  itself is never executed.
\<close>

lemma quoting_statement_match:
  "update_pattern_match quoting_statement = Some [dquote, CHR ''t'', dquote]"
  by (simp add: quoting_statement_def update_pattern_match_def dquote_def backslash_def newline_def)

lemma quoting_statement_upper:
  \<open>upper quoting_statement =
     ''ALTER TABLE "T" UPDATE X = 1 WHERE NAME = ' SETTINGS ' AND ID > 5''\<close>
  by (simp add: quoting_statement_def upper_def upper_char_def lowercase_def uppercase_def)

lemma quoting_statement_where:
  "where_clause quoting_statement =
     Some [CHR ''n'', CHR ''a'', CHR ''m'', CHR ''e'', CHR '' '', CHR ''='', CHR '' '', CHR 0x27]"
  by (simp add: where_clause_def quoting_statement_upper rfind_def) (simp add: quoting_statement_def)

theorem execute_original_statement_counterexample:
  "execute (stub_driver None strict_server) quoting_statement (Some []) cursor0 =
     (Some (OperationalError ''Syntax error''), cursor0\<lparr>state := RUNNING\<rparr>,
      [Execute quoting_probe None])
   \<and> count_list (snd (snd (execute (stub_driver None strict_server) quoting_statement (Some []) cursor0)))
        (Execute quoting_statement (Some [])) = 0"
proof -
  have p: "probe_query [dquote, CHR ''t'', dquote]
             [CHR ''n'', CHR ''a'', CHR ''m'', CHR ''e'', CHR '' '', CHR ''='', CHR '' '', CHR 0x27] = quoting_probe"
    by (simp add: probe_query_def quoting_probe_def dquote_def)
  have e: "emulate_rowcount (stub_driver None strict_server) quoting_statement (Some []) cursor0 =
      (Some (OperationalError ''Syntax error''), cursor0\<lparr>state := RUNNING\<rparr>,
       [Execute quoting_probe None])"
    by (simp add: emulate_rowcount_def quoting_statement_match quoting_statement_where p
        stub_driver_def stub_execute_def strict_server_def cursor0_def Let_def)
  have flag: "flag_enabled (stub_driver None strict_server :: ((string \<times> string) list, int list list) driver)"
    by (simp add: flag_enabled_def stub_driver_def)
  have x: "execute (stub_driver None strict_server) quoting_statement (Some []) cursor0 =
      (Some (OperationalError ''Syntax error''), cursor0\<lparr>state := RUNNING\<rparr>,
       [Execute quoting_probe None])"
    by (simp add: execute_def e flag quoting_statement_match)
  have n: "quoting_probe \<noteq> quoting_statement"
    by (simp add: quoting_probe_def quoting_statement_def)
  from x n show ?thesis by simp
qed

section \<open>The extracted predicate\<close>

text \<open>
  Where the statement has no sharp s, upper-casing keeps every index, and the text
  extracted is the one between the last \<open>WHERE\<close> and the last \<open>SETTINGS\<close> behind it, or
  the end: for a statement \<open>a @ k @ p @ rest\<close> in which \<open>k\<close> is the last \<open>WHERE\<close> between
  two spaces, in either case, and \<open>rest\<close> is empty with no \<open>SETTINGS\<close> in \<open>p\<close>, or starts
  with the last \<open>SETTINGS\<close> between two spaces, the result is \<open>p\<close>.
\<close>

lemma length_upper:
  "CHR 0xDF \<notin> set x \<Longrightarrow> length (upper x) = length x"
  by (induction x) (auto simp: upper_def upper_char_def split: option.split)

lemma prefix_drop_sublist: "prefix sub (drop n xs) \<Longrightarrow> sublist sub xs"
  using prefix_imp_sublist sublist_drop sublist_order.order_trans by blast

lemma no_later_occurrence:
  assumes "\<not> sublist sub (tl (drop i s))" "i < i'"
  shows "\<not> prefix sub (drop i' s)"
proof
  assume p: "prefix sub (drop i' s)"
  from assms(2) have "i' = (i' - Suc i) + Suc i" by simp
  then have "drop i' s = drop (i' - Suc i) (drop (Suc i) s)"
    by (metis drop_drop)
  also have "drop (Suc i) s = tl (drop i s)" by (simp add: drop_Suc tl_drop)
  finally have "prefix sub (drop (i' - Suc i) (tl (drop i s)))" using p by simp
  then have "sublist sub (tl (drop i s))" by (rule prefix_drop_sublist)
  with assms(1) show False by simp
qed

lemma rfind_last:
  assumes i: "i < length s" "start \<le> i" "prefix sub (drop i s)"
    and last: "\<And>i'. i < i' \<Longrightarrow> \<not> prefix sub (drop i' s)"
  shows "rfind s sub start = int i"
proof -
  from rfind_cases [of s sub start] show ?thesis
  proof (elim disjE conjE exE)
    assume "\<forall>i<length s. start \<le> i \<longrightarrow> \<not> prefix sub (drop i s)"
    with i show ?thesis by blast
  next
    fix k
    assume k: "k < length s" "start \<le> k" "prefix sub (drop k s)"
      "\<forall>i'<length s. k < i' \<longrightarrow> \<not> prefix sub (drop i' s)" "rfind s sub start = int k"
    have "\<not> k < i" using k(4) i(1,3) by blast
    moreover have "\<not> i < k" using last k(3) by blast
    ultimately have "k = i" by simp
    with k(5) show ?thesis by simp
  qed
qed

lemma rfind_none_from:
  assumes "\<And>i'. start \<le> i' \<Longrightarrow> \<not> prefix sub (drop i' s)"
  shows "rfind s sub start = - 1"
  using rfind_cases [of s sub start] assms by blast

lemma where_clause_between:
  assumes ns: "CHR 0xDF \<notin> set query"
    and m: "update_pattern_match query = Some table"
    and q: "query = a @ k @ p @ rest"
    and k: "upper k = '' WHERE ''"
    and lastw: "\<not> sublist '' WHERE '' (tl (upper (k @ p @ rest)))"
    and s: "(rest = [] \<and> \<not> sublist '' SETTINGS '' (upper p)) \<or>
            (\<exists>s r. rest = s @ r \<and> upper s = '' SETTINGS '' \<and>
                   \<not> sublist '' SETTINGS '' (tl (upper (s @ r))))"
  shows "where_clause query = Some p"
proof -
  let ?U = "upper query"
  from ns q have la: "length (upper a) = length a" and lk: "length (upper k) = length k"
    and lp: "length (upper p) = length p"
    by (simp_all add: length_upper)
  from lk k have k7: "length k = 7" by simp
  have U: "?U = upper a @ '' WHERE '' @ upper p @ upper rest"
    by (simp only: q upper_append k)
  have dU: "drop (length a) ?U = '' WHERE '' @ upper p @ upper rest"
    by (simp only: U) (simp add: la)
  from m obtain u where u: "?U = CHR ''A'' # u" using upper_matched by blast
  have a0: "0 < length a"
  proof (rule ccontr)
    assume "\<not> 0 < length a"
    then have "a = []" by simp
    with U u show False by (simp add: upper_def)
  qed
  have "tl (drop (length a) ?U) = tl (upper (k @ p @ rest))"
    by (simp only: dU upper_append k)
  with lastw have lastw': "\<not> sublist '' WHERE '' (tl (drop (length a) ?U))"
    by simp
  have i: "rfind ?U '' WHERE '' 0 = int (length a)"
  proof (rule rfind_last)
    show "length a < length ?U" by (simp only: U) (simp add: la)
    show "0 \<le> length a" by simp
    show "prefix '' WHERE '' (drop (length a) ?U)" by (simp only: dU) simp
    show "\<not> prefix '' WHERE '' (drop i' ?U)" if "length a < i'" for i'
      using lastw' that by (rule no_later_occurrence)
  qed
  have start: "nat (int (length a) + 7) = length a + 7" by simp
  have dU7: "drop (length a + 7) ?U = upper p @ upper rest"
    by (simp only: U) (simp add: la)
  have dq7: "drop (length a + 7) query = p @ rest"
    by (simp add: q k7)
  from s show ?thesis
  proof (elim disjE conjE exE)
    assume r: "rest = []" and np: "\<not> sublist '' SETTINGS '' (upper p)"
    have "rfind ?U '' SETTINGS '' (length a + 7) = - 1"
    proof (rule rfind_none_from)
      fix i' assume ge: "length a + 7 \<le> i'"
      show "\<not> prefix '' SETTINGS '' (drop i' ?U)"
      proof
        assume pr: "prefix '' SETTINGS '' (drop i' ?U)"
        from ge have "drop i' ?U = drop (i' - (length a + 7)) (drop (length a + 7) ?U)"
          by simp
        with pr dU7 r have "prefix '' SETTINGS '' (drop (i' - (length a + 7)) (upper p))"
          by (simp add: upper_def)
        then have "sublist '' SETTINGS '' (upper p)" by (rule prefix_drop_sublist)
        with np show False by simp
      qed
    qed
    with i a0 dq7 r show ?thesis
      by (simp add: where_clause_def Let_def start)
  next
    fix s r
    assume r: "rest = s @ r" and us: "upper s = '' SETTINGS ''"
      and ls: "\<not> sublist '' SETTINGS '' (tl (upper (s @ r)))"
    let ?j = "length a + 7 + length p"
    have "drop ?j ?U = drop (length p) (drop (length a + 7) ?U)"
      by (simp add: add.commute)
    also have "\<dots> = upper rest" by (simp only: dU7) (simp add: lp)
    finally have dUj: "drop ?j ?U = '' SETTINGS '' @ upper r"
      by (simp only: r upper_append us)
    have "tl (drop ?j ?U) = tl (upper (s @ r))"
      by (simp only: dUj upper_append us)
    with ls have ls': "\<not> sublist '' SETTINGS '' (tl (drop ?j ?U))"
      by simp
    have j: "rfind ?U '' SETTINGS '' (length a + 7) = int ?j"
    proof (rule rfind_last)
      show "?j < length ?U" by (simp only: U r upper_append us) (simp add: la lp)
      show "length a + 7 \<le> ?j" by simp
      show "prefix '' SETTINGS '' (drop ?j ?U)" by (simp only: dUj) simp
      show "\<not> prefix '' SETTINGS '' (drop i' ?U)" if "?j < i'" for i'
        using ls' that by (rule no_later_occurrence)
    qed
    have nj: "nat (int ?j) - (length a + 7) = length p"
      by simp
    have "take (nat (int ?j) - (length a + 7)) (drop (length a + 7) query) = p"
      by (simp only: nj dq7) simp
    moreover have "int ?j > 0" using a0 by simp
    ultimately show ?thesis using i j a0
      by (simp only: where_clause_def Let_def start) simp
  qed
qed

text \<open>
  For such a statement the probe is \<open>select count(*) from\<close>, the quoted name, \<open>where\<close>
  and the predicate \<open>p\<close>, and the statement follows it.
\<close>

lemma execute_probe_on_predicate:
  assumes flag: "flag_enabled env"
    and shape: "update_pattern_match operation \<noteq> None"
    and subst: "substitute_params env (client c) operation parameters = Inr query"
    and table: "update_pattern_match query = Some table"
    and ns: "CHR 0xDF \<notin> set query"
    and q: "query = a @ k @ p @ rest"
    and k: "upper k = '' WHERE ''"
    and lastw: "\<not> sublist '' WHERE '' (tl (upper (k @ p @ rest)))"
    and s: "(rest = [] \<and> \<not> sublist '' SETTINGS '' (upper p)) \<or>
            (\<exists>s r. rest = s @ r \<and> upper s = '' SETTINGS '' \<and>
                   \<not> sublist '' SETTINGS '' (tl (upper (s @ r))))"
    and probe: "super_execute env (''select count(*) from '' @ table @ '' where '' @ p) None c =
                  (None, c1)"
    and fetch: "fetchone env c1 = (Inr (Some [n]), c2)"
  shows "execute env operation parameters c =
           (fst (super_execute env operation parameters ((reset_state env c2)\<lparr>rowcount := n\<rparr>)),
            snd (super_execute env operation parameters ((reset_state env c2)\<lparr>rowcount := n\<rparr>)),
            [Execute (''select count(*) from '' @ table @ '' where '' @ p) None,
             Execute operation parameters])"
proof -
  from where_clause_between [OF ns table q k lastw s]
  have w: "where_clause query = Some p" .
  have pq: "probe_query table p = ''select count(*) from '' @ table @ '' where '' @ p"
    by (simp add: probe_query_def)
  have "emulate_rowcount env operation parameters c =
          (None, (reset_state env c2)\<lparr>rowcount := n\<rparr>,
           [Execute (''select count(*) from '' @ table @ '' where '' @ p) None])"
    using probe fetch
    by (simp add: emulate_rowcount_def subst table w pq unpack_rowcount_def)
  with flag shape show ?thesis
    by (simp add: execute_def split: prod.split)
qed

text \<open>The scenario of the specification, a statement that ends in a settings clause.\<close>

lemma where_clause_settings_scenario:
  \<open>where_clause ''ALTER TABLE "t" UPDATE x = 1 WHERE id > 5 SETTINGS max_threads = 2'' =
     Some ''id > 5''\<close>
  by (simp add: where_clause_def rfind_def upper_def upper_char_def lowercase_def uppercase_def)

lemma sharp_s_statement_match:
  "update_pattern_match sharp_s_statement = Some [dquote, CHR ''t'', dquote]"
  by (simp add: sharp_s_statement_def update_pattern_match_def dquote_def backslash_def newline_def)

lemma sharp_s_statement_upper:
  \<open>upper sharp_s_statement =
     ''ALTER TABLE "T" UPDATE S = 'SS' WHERE ID > 5 SETTINGS MAX_THREADS = 2''\<close>
  by (simp add: sharp_s_statement_def upper_def upper_char_def lowercase_def uppercase_def)

text \<open>
  Claim C3. The indices found in \<open>query.upper()\<close> are used on \<open>query\<close>. Upper-casing the
  sharp s gives two characters, so behind a sharp s every index is one too high: for
  \<open>ALTER TABLE "t" UPDATE s = '\<ss>' WHERE id > 5 SETTINGS max_threads = 2\<close> the text
  extracted is \<open>d > 5\<close> with a space behind it, not \<open>id > 5\<close>.
\<close>

theorem where_clause_sharp_s:
  "where_clause sharp_s_statement = Some ''d > 5 ''"
  by (simp add: where_clause_def sharp_s_statement_upper rfind_def) (simp add: sharp_s_statement_def)

lemma execute_first_call:
  assumes "flag_enabled env" "update_pattern_match operation \<noteq> None"
    and "substitute_params env (client c) operation parameters = Inr query"
    and "update_pattern_match query = Some table"
    and "where_clause query = Some w"
  shows "\<exists>rest. snd (snd (execute env operation parameters c)) =
           Execute (probe_query table w) None # rest"
  using assms
  by (auto simp: execute_def emulate_rowcount_def Let_def
      split: prod.splits option.splits sum.splits)

text \<open>
  Claim C1. With the flag enabled, \<open>execute\<close> on a statement of the shape that contains
  \<open>WHERE\<close> first executes a probe; but the probe is not always on the predicate of the
  statement. For \<open>ALTER TABLE "t" UPDATE s = '\<ss>' WHERE id > 5 SETTINGS max_threads = 2\<close>
  the first call of the inherited \<open>execute\<close> is, whatever the server answers,
  \<open>select count(*) from "t" where d > 5\<close> with a space behind it: the predicate \<open>id > 5\<close>
  has lost its first letter.
\<close>

theorem execute_sharp_s_probe:
  \<open>\<exists>rest. snd (snd (execute (stub_driver None server) sharp_s_statement (Some []) cursor0)) =
      Execute ''select count(*) from "t" where d > 5 '' None # rest\<close>
proof -
  let ?env = "stub_driver None server"
  have flag: "flag_enabled ?env" by (simp add: flag_enabled_def stub_driver_def)
  have shape: "update_pattern_match sharp_s_statement \<noteq> None"
    by (simp add: sharp_s_statement_match)
  have subst: "substitute_params ?env (client cursor0) sharp_s_statement (Some []) =
      Inr sharp_s_statement"
    by (simp add: stub_driver_def)
  have w: "where_clause sharp_s_statement = Some ''d > 5 ''"
    by (simp add: where_clause_def sharp_s_statement_upper rfind_def)
       (simp add: sharp_s_statement_def)
  have probe: \<open>probe_query [dquote, CHR ''t'', dquote] ''d > 5 '' =
      ''select count(*) from "t" where d > 5 ''\<close>
    by (simp add: probe_query_def dquote_def)
  from execute_first_call [OF flag shape subst sharp_s_statement_match w]
  show ?thesis by (simp only: probe)
qed

section \<open>Releasing the handle\<close>

lemma close_closed: "closed c \<Longrightarrow> close ops c conn = (None, c, conn, [])"
  by (simp add: close_def)

lemma close_open:
  "\<not> closed c \<Longrightarrow>
   close ops c conn =
     (fst (push ops (client c) (pool conn)), c\<lparr>state := CURSOR_CLOSED\<rparr>,
      conn\<lparr>pool := snd (push ops (client c) (pool conn))\<rparr>, [Push (client c)])"
  by (simp add: close_def split: prod.split)

lemma closed_after_close: "closed (fst (snd (close ops c conn)))"
  by (simp add: close_def closed_def split: prod.split)

lemma del_eq_close: "del ops c conn = close ops c conn"
  by (simp add: del_def close_def)

lemma releases_closed: "closed c \<Longrightarrow> releases ops xs c conn = (c, conn, [])"
  by (induction xs) (simp_all add: close_closed del_eq_close split: release.split)

lemma releases_open:
  assumes "\<not> closed c" "xs \<noteq> []"
  shows "releases ops xs c conn =
     (c\<lparr>state := CURSOR_CLOSED\<rparr>, conn\<lparr>pool := snd (push ops (client c) (pool conn))\<rparr>,
      [Push (client c)])"
proof -
  from assms(2) obtain y ys where xs: "xs = y # ys" by (cases xs) auto
  have c: "closed (c\<lparr>state := CURSOR_CLOSED\<rparr>)" by (simp add: closed_def)
  have "(case y of Close \<Rightarrow> close ops c conn | Del \<Rightarrow> del ops c conn) = close ops c conn"
    by (simp add: del_eq_close split: release.split)
  with assms(1) xs show ?thesis
    by (simp add: close_open releases_closed [OF c])
qed

text \<open>
  Claim C2. \<open>close()\<close> on a cursor that is not closed sets its state to \<open>CURSOR_CLOSED\<close> and
  pushes its handle to the pool; on a closed cursor it changes nothing and calls nothing.
  The cursor is closed after any call, so a second call is of the second kind; and any
  number of calls, at least one, on a cursor that is not closed push the handle exactly
  once.
\<close>

theorem close_idempotent:
  "close ops c conn =
     (if closed c then (None, c, conn, [])
      else (fst (push ops (client c) (pool conn)), c\<lparr>state := CURSOR_CLOSED\<rparr>,
            conn\<lparr>pool := snd (push ops (client c) (pool conn))\<rparr>, [Push (client c)]))
   \<and> (\<forall>r c1 conn1 calls1.
        close ops c conn = (r, c1, conn1, calls1) \<longrightarrow>
        closed c1 \<and> close ops c1 conn1 = (None, c1, conn1, []))
   \<and> (\<not> closed c \<longrightarrow>
        releases ops (replicate (Suc n) Close) c conn =
          (c\<lparr>state := CURSOR_CLOSED\<rparr>, conn\<lparr>pool := snd (push ops (client c) (pool conn))\<rparr>,
           [Push (client c)]))"
proof (intro conjI allI impI)
  show "close ops c conn =
     (if closed c then (None, c, conn, [])
      else (fst (push ops (client c) (pool conn)), c\<lparr>state := CURSOR_CLOSED\<rparr>,
            conn\<lparr>pool := snd (push ops (client c) (pool conn))\<rparr>, [Push (client c)]))"
    by (simp add: close_closed close_open)
next
  fix r c1 conn1 calls1
  assume a: "close ops c conn = (r, c1, conn1, calls1)"
  from closed_after_close [of ops c conn] a show "closed c1" by simp
  then show "close ops c1 conn1 = (None, c1, conn1, [])" by (rule close_closed)
next
  assume "\<not> closed c"
  then show "releases ops (replicate (Suc n) Close) c conn =
          (c\<lparr>state := CURSOR_CLOSED\<rparr>, conn\<lparr>pool := snd (push ops (client c) (pool conn))\<rparr>,
           [Push (client c)])"
    by (intro releases_open) simp_all
qed

theorem close_idempotent_witness:
  "\<not> closed cursor0 \<and>
   releases list_pool [Close, Close, Close] cursor0 connection0 =
     (cursor0\<lparr>state := CURSOR_CLOSED\<rparr>, connection0\<lparr>pool := [client0]\<rparr>, [Push client0])"
proof -
  have o: "\<not> closed cursor0" by (simp add: closed_def cursor0_def)
  from close_idempotent [of list_pool cursor0 connection0 2] o
  have "releases list_pool (replicate (Suc 2) Close) cursor0 connection0 =
          (cursor0\<lparr>state := CURSOR_CLOSED\<rparr>,
           connection0\<lparr>pool := snd (push list_pool (client cursor0) (pool connection0))\<rparr>,
           [Push (client cursor0)])"
    by blast
  moreover have "replicate (Suc 2) Close = [Close, Close, Close]"
    by (simp add: numeral_2_eq_2)
  ultimately show ?thesis using o
    by (simp add: list_pool_def cursor0_def connection0_def)
qed

text \<open>
  Claim C9. Any sequence of calls of \<open>close()\<close> and \<open>__del__()\<close> on one cursor, in any
  order, each call run to its end, pushes the handle at most once: not at all when the
  cursor was closed or the sequence is empty, and once otherwise. The state is
  \<open>CURSOR_CLOSED\<close> before the push, so this holds also when the push raises.
\<close>

theorem releases_push_once:
  "releases ops xs c conn =
     (if closed c \<or> xs = [] then (c, conn, [])
      else (c\<lparr>state := CURSOR_CLOSED\<rparr>, conn\<lparr>pool := snd (push ops (client c) (pool conn))\<rparr>,
            [Push (client c)]))
   \<and> length (snd (snd (releases ops xs c conn))) \<le> 1"
proof -
  have "releases ops xs c conn =
     (if closed c \<or> xs = [] then (c, conn, [])
      else (c\<lparr>state := CURSOR_CLOSED\<rparr>, conn\<lparr>pool := snd (push ops (client c) (pool conn))\<rparr>,
            [Push (client c)]))"
  proof (cases "closed c \<or> xs = []")
    case True
    then show ?thesis by (auto simp: releases_closed)
  next
    case False
    then show ?thesis by (simp add: releases_open)
  qed
  then show ?thesis by simp
qed

section \<open>The options\<close>

text \<open>
  Claim C6. The setter stores the new value in the client's settings before it imports
  the NumPy result classes. Without NumPy, setting \<open>use_numpy\<close> to true on a cursor where it
  was false raises \<open>RuntimeError\<close> and leaves the setting true.
\<close>

theorem set_use_numpy_unavailable:
  "set_use_numpy False True cursor0 =
     (Some (RuntimeError ''Extras for NumPy must be installed''),
      cursor0\<lparr>client := client0\<lparr>use_numpy_setting := True\<rparr>\<rparr>)
   \<and> use_numpy cursor0 = False
   \<and> use_numpy (snd (set_use_numpy False True cursor0)) = True"
  by (simp add: set_use_numpy_def use_numpy_def cursor0_def client0_def)

text \<open>
  Claim C5. When the body of the \<open>with\<close> block raises, the code behind the \<open>yield\<close> does
  not run: the cursor keeps the values the block had set, here \<open>use_numpy\<close> true and
  \<open>columnar\<close> true on a cursor that had them false and \<open>None\<close>.
\<close>

theorem options_not_restored_on_error:
  "with_query_execution_args True (Some True) (Some True) failing_body cursor0 =
     (Some (OperationalError ''failed''),
      cursor0\<lparr>client := client0\<lparr>use_numpy_setting := True,
                                query_result_cls := NumpyQueryResult,
                                iter_query_result_cls := NumpyIterQueryResult,
                                progress_query_result_cls := NumpyProgressQueryResult\<rparr>,
              columnar := Some True\<rparr>)
   \<and> use_numpy cursor0 = False \<and> columnar cursor0 = None"
  by (simp add: with_query_execution_args_def enter_query_execution_args_def
      set_use_numpy_def use_numpy_def failing_body_def cursor0_def client0_def)

text \<open>When the block and the code behind the \<open>yield\<close> return, both values are restored.\<close>

lemma set_use_numpy_columnar:
  "columnar (snd (set_use_numpy inst v c)) = columnar c"
  by (simp add: set_use_numpy_def Let_def)

lemma set_use_numpy_value:
  "set_use_numpy inst v c = (None, c') \<Longrightarrow> use_numpy c' = v"
  by (auto simp: set_use_numpy_def use_numpy_def Let_def split: if_splits)

lemma options_restored_on_return:
  assumes "with_query_execution_args inst columnar_arg use_numpy_arg body c = (None, c')"
  shows "use_numpy c' = use_numpy c \<and> columnar c' = columnar c"
proof -
  from assms obtain saved c1 c2 where
    en: "enter_query_execution_args inst columnar_arg use_numpy_arg c = (Inr saved, c1)"
    and ex: "exit_query_execution_args inst saved c2 = (None, c')"
    by (auto simp: with_query_execution_args_def split: prod.splits sum.splits option.splits)
  have s1: "fst saved = use_numpy c"
    using en by (auto simp: enter_query_execution_args_def Let_def split: prod.splits option.splits)
  have s2: "snd saved = columnar c"
  proof (cases use_numpy_arg)
    case None
    with en show ?thesis
      by (auto simp: enter_query_execution_args_def Let_def split: prod.splits option.splits)
  next
    case (Some v)
    with en set_use_numpy_columnar [of inst v c] show ?thesis
      by (auto simp: enter_query_execution_args_def Let_def split: prod.splits option.splits)
  qed
  from ex obtain c3 where r: "set_use_numpy inst (fst saved) c2 = (None, c3)"
    and c': "c' = c3\<lparr>columnar := snd saved\<rparr>"
    by (auto simp: exit_query_execution_args_def split: prod.splits option.splits)
  from set_use_numpy_value [OF r] c' s1 s2 show ?thesis
    by (simp add: use_numpy_def)
qed

section \<open>Connection.cursor\<close>

text \<open>
  Claim C7. On a closed connection \<open>cursor()\<close> raises \<open>InterfaceError\<close>; the connection
  and its pool are unchanged, nothing is pulled and no cursor is made.
\<close>

theorem cursor_on_closed_connection:
  "is_closed conn \<Longrightarrow>
   connection_cursor ops Cursor cursor_factory conn =
     (Inl (InterfaceError ''connection already closed''), conn, [])"
  by (simp add: connection_cursor_def)

theorem cursor_on_closed_connection_witness:
  "is_closed (snd (connection_close list_pool (connection0\<lparr>pool := [client0]\<rparr>)))
   \<and> connection_cursor list_pool (\<lambda>cl. cursor0\<lparr>client := cl\<rparr>) None
        (snd (connection_close list_pool (connection0\<lparr>pool := [client0]\<rparr>))) =
       (Inl (InterfaceError ''connection already closed''),
        \<lparr>is_closed = True, hosts_cache = None, pool = []\<rparr>, [])"
proof -
  let ?conn = "snd (connection_close list_pool (connection0\<lparr>pool := [client0]\<rparr>))"
  have e: "?conn = \<lparr>is_closed = True, hosts_cache = None, pool = []\<rparr>"
    by (simp add: connection_close_def connection0_def list_pool_def)
  then have c: "is_closed ?conn" by simp
  from cursor_on_closed_connection [OF c, of list_pool "\<lambda>cl. cursor0\<lparr>client := cl\<rparr>" None] c e
  show ?thesis by simp
qed

section \<open>The order of the writes of send_query\<close>

lemma write_header_fout:
  "\<exists>pre. fout (write_header d query_id s) = fout s @ pre \<and>
         (\<forall>x\<in>set pre. \<forall>e b. x \<noteq> Settings e b {CUSTOM})"
proof -
  have i: "({} \<union> {IMPORTANT} :: settings_flag set) \<noteq> {CUSTOM}" by simp
  show ?thesis
    unfolding write_header_def Let_def write_item_def
    by (simp add: i)
qed

lemma write_header_frame:
  "used_revision (write_header d query_id s) = used_revision s"
  "server_side_params (write_header d query_id s) = server_side_params s"
  by (simp_all add: write_header_def Let_def write_item_def)

text \<open>
  Claim C8. Once the connection is there, \<open>send_query\<close> writes the query text behind
  everything else it has written, and none of the earlier writes is a settings block with
  the flag \<open>CUSTOM\<close>. Behind the query text it writes, when the server revision is at least
  \<open>DBMS_MIN_PROTOCOL_VERSION_WITH_PARAMETERS\<close>, the settings block of the escaped
  parameters (as strings, flag \<open>CUSTOM\<close>) and flushes, or nothing when escaping raises; below
  that revision it only flushes.
\<close>

theorem send_query_parameters_after_query:
  assumes conn: "(if \<not> connected self then connect self else Inr self) = Inr s0"
  shows "\<exists>pre.
     fout (snd (send_query d connect escape_params self query query_id params)) =
       fout s0 @ pre @ BinaryStr query #
         (if used_revision s0 \<ge> DBMS_MIN_PROTOCOL_VERSION_WITH_PARAMETERS d then
            (case (if server_side_params s0
                   then escape_params (case params of None \<Rightarrow> [] | Some p \<Rightarrow> p)
                   else Inr []) of
               Inl e \<Rightarrow> []
             | Inr escaped \<Rightarrow> [Settings escaped True {CUSTOM}, Flush])
          else [Flush])
     \<and> (\<forall>x\<in>set pre. \<forall>e b. x \<noteq> Settings e b {CUSTOM})"
proof -
  from write_header_fout [of d query_id s0] obtain pre where
    pre: "fout (write_header d query_id s0) = fout s0 @ pre"
    and nc: "\<forall>x\<in>set pre. \<forall>e b. x \<noteq> Settings e b {CUSTOM}"
    by blast
  have "fout (snd (send_query d connect escape_params self query query_id params)) =
       fout s0 @ pre @ BinaryStr query #
         (if used_revision s0 \<ge> DBMS_MIN_PROTOCOL_VERSION_WITH_PARAMETERS d then
            (case (if server_side_params s0
                   then escape_params (case params of None \<Rightarrow> [] | Some p \<Rightarrow> p)
                   else Inr []) of
               Inl e \<Rightarrow> []
             | Inr escaped \<Rightarrow> [Settings escaped True {CUSTOM}, Flush])
          else [Flush])"
    unfolding send_query_def conn
    by (simp add: Let_def write_item_def write_header_frame pre split: sum.split)
  with nc show ?thesis by blast
qed



text \<open>
  A query with one parameter, sent to a server of revision 54468: the parameter block is
  the write behind the query text.
\<close>

lemma native0_connected:
  "(if \<not> connected native0 then Inr native0 else Inr native0) = (Inr native0 :: error + string native)"
  by simp

lemma send_query_native0:
  "fout (snd (send_query defines0 Inr Inr native0 ''SELECT {x:Int32}'' None (Some [(''x'', ''1'')]))) =
       [Varint 1, BinaryStr [], ClientInfo ''python-driver'' 54468 1 54468,
        Settings [] True {}, BinaryStr [], Varint 2, Varint 0,
        BinaryStr ''SELECT {x:Int32}'', Settings [(''x'', ''1'')] True {CUSTOM}, Flush]"
  by (simp add: send_query_def write_header_def write_item_def native0_def defines0_def Let_def)


theorem send_query_parameters_after_query_witness:
  "(if \<not> connected native0 then Inr native0 else Inr native0) = (Inr native0 :: error + string native)
   \<and> (\<exists>pre. fout (snd (send_query defines0 Inr Inr native0 ''SELECT {x:Int32}'' None
                  (Some [(''x'', ''1'')]))) =
          pre @ [BinaryStr ''SELECT {x:Int32}'', Settings [(''x'', ''1'')] True {CUSTOM}, Flush])
   \<and> fout (snd (send_query defines0 Inr Inr native0 ''SELECT {x:Int32}'' None (Some [(''x'', ''1'')]))) =
       [Varint 1, BinaryStr [], ClientInfo ''python-driver'' 54468 1 54468,
        Settings [] True {}, BinaryStr [], Varint 2, Varint 0,
        BinaryStr ''SELECT {x:Int32}'', Settings [(''x'', ''1'')] True {CUSTOM}, Flush]"
proof -
  note t = send_query_parameters_after_query
         [where self = native0 and connect = Inr and ?s0.0 = native0 and d = defines0
            and escape_params = Inr and query = "''SELECT {x:Int32}''" and query_id = None
            and params = "Some [(''x'', ''1'')]", OF native0_connected]
  have r: "DBMS_MIN_PROTOCOL_VERSION_WITH_PARAMETERS defines0 \<le> used_revision native0"
    "server_side_params native0" "fout native0 = []"
    by (simp_all add: native0_def defines0_def)
  from t have "\<exists>pre. fout (snd (send_query defines0 Inr Inr native0 ''SELECT {x:Int32}'' None
                  (Some [(''x'', ''1'')]))) =
          pre @ [BinaryStr ''SELECT {x:Int32}'', Settings [(''x'', ''1'')] True {CUSTOM}, Flush]"
    by (elim exE conjE) (simp add: r)
  with native0_connected send_query_native0 show ?thesis by simp
qed

end
